theory Spec2Isabelle
  imports
    Complex_Main
    "HOL-Library.Char_ord"
    "HOL-Library.List_Lexorder"
    "HOL-Library.Product_Lexorder"
begin

section \<open>The housing dashboard: data model\<close>

text \<open>
  The program is \<^verbatim>\<open>unified_housing_dashboard.py\<close>. It reads \<^verbatim>\<open>train.csv\<close> into a
  pandas data frame, drops the columns that are mostly missing, sorts the remaining
  column names into a categorical and a numerical list, and serves four plotting
  callbacks over the frame.

  A data frame is modelled as the list of its columns, in file order. A column has a
  name, the storage type pandas inferred for it, and one cell per row. A cell is a
  missing value (\<open>NaN\<close>) or a value of the column's storage type: text in an
  \<^verbatim>\<open>object\<close> column, an integer in an \<^verbatim>\<open>int64\<close> column, a number in a
  \<^verbatim>\<open>float64\<close> column, a truth value in a \<^verbatim>\<open>bool\<close> column. These are the
  four storage types \<^verbatim>\<open>read_csv\<close> infers without further options.
\<close>

datatype dtype = ObjectT | Int64T | Float64T | BoolT

datatype cell = NaN | S string | I int | F rat | B bool

record column =
  cname :: string
  dtype :: dtype
  cells :: "cell list"

type_synonym dataframe = "column list"

definition columns :: "dataframe \<Rightarrow> string list" where
  "columns d = map cname d"

definition nrows :: "dataframe \<Rightarrow> nat" where
  "nrows d = (case d of [] \<Rightarrow> 0 | c # _ \<Rightarrow> length (cells c))"

text \<open>
  What \<^verbatim>\<open>read_csv\<close> guarantees of the frame it returns: the column names are
  pairwise different (a repeated header is renamed \<^verbatim>\<open>X.1\<close>, \<^verbatim>\<open>X.2\<close>, ...) and every
  column has one cell per row.
\<close>

definition wf_df :: "dataframe \<Rightarrow> bool" where
  "wf_df d \<longleftrightarrow> distinct (columns d) \<and> (\<forall>c \<in> set d. length (cells c) = nrows d)"

text \<open>The exceptions the code can raise, and the one the specification names.\<close>

datatype py_error = KeyError | ValueError | ColumnNotFoundError

section \<open>Cleaning: \<^verbatim>\<open>df = df.loc[:, df.isnull().mean() < 0.5]\<close>\<close>

definition isnull :: "cell \<Rightarrow> bool" where
  "isnull v \<longleftrightarrow> v = NaN"

text \<open>
  The mean of a column of truth values is a float: the number of \<^verbatim>\<open>True\<close> entries
  divided by the number of entries, and \<^verbatim>\<open>nan\<close> for a column without entries. The
  quotient of two row counts is modelled as an exact rational; every comparison of a
  \<^verbatim>\<open>nan\<close> is false.
\<close>

datatype pyfloat = Nan | Fin rat

definition mean_bool :: "bool list \<Rightarrow> pyfloat" where
  "mean_bool bs =
     (if bs = [] then Nan
      else Fin (of_nat (length (filter (\<lambda>b. b) bs)) / of_nat (length bs)))"

fun float_lt :: "pyfloat \<Rightarrow> rat \<Rightarrow> bool" where
  "float_lt Nan q = False"
| "float_lt (Fin r) q = (r < q)"

fun float_ge :: "pyfloat \<Rightarrow> rat \<Rightarrow> bool" where
  "float_ge Nan q = False"
| "float_ge (Fin r) q = (q \<le> r)"

definition isnull_mean :: "column \<Rightarrow> pyfloat" where
  "isnull_mean c = mean_bool (map isnull (cells c))"

definition clean :: "dataframe \<Rightarrow> dataframe" where
  "clean d = filter (\<lambda>c. float_lt (isnull_mean c) (1 / 2)) d"

text \<open>
  The specification's words for the same quantity: the count of missing cells of the
  column divided by the row count of the dataset (undefined, \<open>Nan\<close>, without rows).
\<close>

definition missing_count :: "column \<Rightarrow> nat" where
  "missing_count c = count_list (cells c) NaN"

definition missing_fraction :: "dataframe \<Rightarrow> column \<Rightarrow> pyfloat" where
  "missing_fraction d c =
     (if nrows d = 0 then Nan else Fin (of_nat (missing_count c) / of_nat (nrows d)))"

section \<open>Classification and the feature lists\<close>

text \<open>
  \<^verbatim>\<open>select_dtypes(include=['object'])\<close> keeps the text columns,
  \<^verbatim>\<open>select_dtypes(include=[np.number])\<close> the integer and float columns; a
  \<^verbatim>\<open>bool\<close> column is in neither.
\<close>

definition select_dtypes_object :: "dataframe \<Rightarrow> dataframe" where
  "select_dtypes_object d = filter (\<lambda>c. dtype c = ObjectT) d"

definition select_dtypes_number :: "dataframe \<Rightarrow> dataframe" where
  "select_dtypes_number d = filter (\<lambda>c. dtype c = Int64T \<or> dtype c = Float64T) d"

text \<open>
  The lists after the \<^verbatim>\<open>MSSubClass\<close> block. \<^verbatim>\<open>list.append\<close> adds at the end,
  \<^verbatim>\<open>list.remove\<close> deletes the first occurrence and is guarded by a membership test.
\<close>

definition classify :: "dataframe \<Rightarrow> string list \<times> string list" where
  "classify d =
     (let categorical_cols = columns (select_dtypes_object d);
          numerical_cols = columns (select_dtypes_number d)
      in if ''MSSubClass'' \<in> set (columns d) \<and> ''MSSubClass'' \<notin> set categorical_cols
         then (categorical_cols @ [''MSSubClass''],
               if ''MSSubClass'' \<in> set numerical_cols
               then remove1 ''MSSubClass'' numerical_cols
               else numerical_cols)
         else (categorical_cols, numerical_cols))"

text \<open>The module-level state the callbacks read.\<close>

record app_state =
  df :: dataframe
  categorical_cols :: "string list"
  numerical_cols :: "string list"
  numerical_features_for_comparison :: "string list"
  all_features :: "string list"

definition startup :: "dataframe \<Rightarrow> app_state" where
  "startup raw =
     (let d = clean raw;
          (cats, nums) = classify d;
          nfc = filter (\<lambda>col. col \<noteq> ''SalePrice'') nums
      in \<lparr> df = d, categorical_cols = cats, numerical_cols = nums,
           numerical_features_for_comparison = nfc,
           all_features = cats @ nfc \<rparr>)"

section \<open>Frames and figures of the callbacks\<close>

text \<open>\<^verbatim>\<open>df[name]\<close> and a \<^verbatim>\<open>groupby\<close> key look a column up by name.\<close>

definition get_column :: "dataframe \<Rightarrow> string \<Rightarrow> column option" where
  "get_column d name = find (\<lambda>c. cname c = name) d"

definition notna :: "cell \<Rightarrow> bool" where
  "notna v \<longleftrightarrow> v \<noteq> NaN"

text \<open>
  The order in which pandas sorts the labels of one column: numbers by value, text
  by code point, \<^verbatim>\<open>False\<close> before \<^verbatim>\<open>True\<close>.
\<close>

fun sort_key_of :: "cell \<Rightarrow> nat \<times> rat \<times> string" where
  "sort_key_of NaN = (0, 0, [])"
| "sort_key_of (B b) = (1, if b then 1 else 0, [])"
| "sort_key_of (I i) = (2, of_int i, [])"
| "sort_key_of (F r) = (2, r, [])"
| "sort_key_of (S s) = (3, 0, s)"

text \<open>
  \<^verbatim>\<open>df.groupby([k1, k2]).size()\<close>: a missing key is a \<^verbatim>\<open>KeyError\<close>. With the
  default \<^verbatim>\<open>dropna=True\<close> a row whose label is missing in either key column is in
  no group; with the default \<^verbatim>\<open>sort=True\<close> the groups come in the order of their
  labels. The result is a series of group sizes over a two-level index that carries
  the names of the two keys.
\<close>

definition group_rows :: "column \<Rightarrow> column \<Rightarrow> (cell \<times> cell) list" where
  "group_rows c1 c2 = filter (\<lambda>(a, b). notna a \<and> notna b) (zip (cells c1) (cells c2))"

definition group_labels :: "column \<Rightarrow> column \<Rightarrow> (cell \<times> cell) list" where
  "group_labels c1 c2 =
     sort_key (\<lambda>(a, b). (sort_key_of a, sort_key_of b)) (remdups (group_rows c1 c2))"

record size_series =
  level0 :: column
  level1 :: column
  sizes :: "nat list"

definition groupby_size :: "dataframe \<Rightarrow> string \<Rightarrow> string \<Rightarrow> py_error + size_series" where
  "groupby_size d k1 k2 =
     (case get_column d k1 of
        None \<Rightarrow> Inl KeyError
      | Some c1 \<Rightarrow>
          (case get_column d k2 of
             None \<Rightarrow> Inl KeyError
           | Some c2 \<Rightarrow>
               (let rows = group_rows c1 c2;
                    labels = group_labels c1 c2
                in Inr \<lparr> level0 = \<lparr> cname = k1, dtype = dtype c1, cells = map fst labels \<rparr>,
                         level1 = \<lparr> cname = k2, dtype = dtype c2, cells = map snd labels \<rparr>,
                         sizes = map (count_list rows) labels \<rparr>)))"

text \<open>
  \<^verbatim>\<open>.reset_index(name=n)\<close> turns the series into a frame: the sizes become the
  column \<open>n\<close>, then the index levels are inserted in front of it, the last level
  first. Inserting a column under a name the frame already has raises
  \<^verbatim>\<open>ValueError\<close> (cannot insert, already exists).
\<close>

definition count_column :: "string \<Rightarrow> nat list \<Rightarrow> column" where
  "count_column n ks = \<lparr> cname = n, dtype = Int64T, cells = map (\<lambda>k. I (int k)) ks \<rparr>"

definition reset_index :: "size_series \<Rightarrow> string \<Rightarrow> py_error + dataframe" where
  "reset_index ser n =
     (if cname (level1 ser) = n then Inl ValueError
      else if cname (level0 ser) \<in> {cname (level1 ser), n} then Inl ValueError
      else Inr [level0 ser, level1 ser, count_column n (sizes ser)])"

text \<open>
  \<^verbatim>\<open>Series.value_counts()\<close> counts the distinct values that are not missing, each
  with the number of rows that hold it, and sorts them by descending count. The order
  among values of equal count is the sorting routine's and differs between versions
  of pandas and machines; \<open>count_rows\<close> fixes one such order (that of the first
  row), and no statement below depends on it.
\<close>

definition unique :: "cell list \<Rightarrow> cell list" where
  "unique vs = rev (remdups (rev vs))"

definition count_rows :: "column \<Rightarrow> (cell \<times> nat) list" where
  "count_rows c =
     sort_key (\<lambda>(v, k). - int k)
       (map (\<lambda>v. (v, count_list (cells c) v)) (unique (filter notna (cells c))))"

text \<open>
  The result is a series (pandas 2 and later): it is named \<^verbatim>\<open>count\<close>, and its
  index holds the values and carries the name of the column that was counted.
\<close>

record count_series =
  count_index :: column
  count_name :: string
  count_values :: "nat list"

definition value_counts :: "column \<Rightarrow> count_series" where
  "value_counts c =
     \<lparr> count_index = \<lparr> cname = cname c, dtype = dtype c, cells = map fst (count_rows c) \<rparr>,
       count_name = ''count'',
       count_values = map snd (count_rows c) \<rparr>"

text \<open>
  \<^verbatim>\<open>.reset_index()\<close> on this series: the counts become a column under the name of
  the series, and the index is inserted in front of it under its own name, which
  raises \<^verbatim>\<open>ValueError\<close> when that name is already taken.
\<close>

definition reset_index_counts :: "count_series \<Rightarrow> py_error + dataframe" where
  "reset_index_counts ser =
     (if cname (count_index ser) = count_name ser then Inl ValueError
      else Inr [count_index ser, count_column (count_name ser) (count_values ser)])"

text \<open>
  \<^verbatim>\<open>frame.columns = names\<close> relabels the columns in order; a list of another
  length than the number of columns is a \<^verbatim>\<open>ValueError\<close>.
\<close>

definition set_columns :: "dataframe \<Rightarrow> string list \<Rightarrow> py_error + dataframe" where
  "set_columns d names =
     (if length names \<noteq> length d then Inl ValueError
      else Inr (map (\<lambda>(c, n). c\<lparr>cname := n\<rparr>) (zip d names)))"

text \<open>
  A figure as plotly express builds it: the kind of trace, the data of the columns it
  was given by name, and the layout. The bins of a histogram and the boxes of a box
  plot are computed by the renderer in the browser from the raw values held here.
\<close>

datatype chart_kind = BarChart | BoxPlot | ScatterPlot | Histogram

record figure =
  fig_kind :: chart_kind
  fig_x :: "string \<times> cell list"
  fig_y :: "(string \<times> cell list) option"
  fig_color :: "(string \<times> cell list) option"
  fig_nbins :: "nat option"
  fig_marginal :: "string option"
  fig_title :: string
  xaxis_title :: string
  yaxis_title :: string

text \<open>
  plotly express resolves a column argument against the frame it was given and raises
  \<^verbatim>\<open>ValueError\<close> when the name is not the name of a column; a name that two
  columns carry does not denote a column of values either.
\<close>

definition px_column :: "dataframe \<Rightarrow> string \<Rightarrow> py_error + string \<times> cell list" where
  "px_column d name =
     (case filter (\<lambda>c. cname c = name) d of
        [c] \<Rightarrow> Inr (name, cells c)
      | _ \<Rightarrow> Inl ValueError)"

definition px_xy :: "chart_kind \<Rightarrow> dataframe \<Rightarrow> string \<Rightarrow> string \<Rightarrow> string \<Rightarrow> py_error + figure" where
  "px_xy k d x_col y_col t =
     (case px_column d x_col of
        Inl e \<Rightarrow> Inl e
      | Inr xs \<Rightarrow>
          (case px_column d y_col of
             Inl e \<Rightarrow> Inl e
           | Inr ys \<Rightarrow>
               Inr \<lparr> fig_kind = k, fig_x = xs, fig_y = Some ys, fig_color = None,
                     fig_nbins = None, fig_marginal = None, fig_title = t,
                     xaxis_title = x_col, yaxis_title = y_col \<rparr>))"

definition px_bar :: "dataframe \<Rightarrow> string \<Rightarrow> string \<Rightarrow> string option \<Rightarrow> string \<Rightarrow> py_error + figure" where
  "px_bar d x_col y_col color t =
     (case px_xy BarChart d x_col y_col t of
        Inl e \<Rightarrow> Inl e
      | Inr fig \<Rightarrow>
          (case color of
             None \<Rightarrow> Inr fig
           | Some c \<Rightarrow>
               (case px_column d c of
                  Inl e \<Rightarrow> Inl e
                | Inr cs \<Rightarrow> Inr (fig\<lparr>fig_color := Some cs\<rparr>))))"

definition px_box :: "dataframe \<Rightarrow> string \<Rightarrow> string \<Rightarrow> string \<Rightarrow> py_error + figure" where
  "px_box d x_col y_col t = px_xy BoxPlot d x_col y_col t"


definition px_histogram :: "dataframe \<Rightarrow> string \<Rightarrow> nat \<Rightarrow> string \<Rightarrow> string \<Rightarrow> py_error + figure" where
  "px_histogram d x_col n t m =
     (case px_column d x_col of
        Inl e \<Rightarrow> Inl e
      | Inr xs \<Rightarrow>
          Inr \<lparr> fig_kind = Histogram, fig_x = xs, fig_y = None, fig_color = None,
                fig_nbins = Some n, fig_marginal = Some m, fig_title = t,
                xaxis_title = x_col, yaxis_title = ''count'' \<rparr>)"

definition update_layout :: "figure \<Rightarrow> string \<Rightarrow> string \<Rightarrow> figure" where
  "update_layout fig xt yt = fig\<lparr>xaxis_title := xt, yaxis_title := yt\<rparr>"

section \<open>The four callbacks\<close>

definition update_comparison_plot :: "app_state \<Rightarrow> string \<Rightarrow> string \<Rightarrow> py_error + figure" where
  "update_comparison_plot st categorical_col comparison_col =
     (case
        (if comparison_col \<in> set (categorical_cols st)
         then (case groupby_size (df st) categorical_col comparison_col of
                 Inl e \<Rightarrow> Inl e
               | Inr ser \<Rightarrow>
                   (case reset_index ser ''Count'' of
                      Inl e \<Rightarrow> Inl e
                    | Inr grouped_counts \<Rightarrow>
                        px_bar grouped_counts categorical_col ''Count'' (Some comparison_col)
                          (''Count of '' @ categorical_col @ '' by '' @ comparison_col)))
         else px_box (df st) categorical_col comparison_col
                (comparison_col @ '' Distribution by '' @ categorical_col))
      of Inl e \<Rightarrow> Inl e
       | Inr fig \<Rightarrow> Inr (update_layout fig categorical_col comparison_col))"

text \<open>
  The count plot: \<^verbatim>\<open>df[categorical_col].value_counts().reset_index()\<close>, the
  relabelling of the two columns of that frame, and the bar chart over it.
\<close>

definition update_categorical_count_plot :: "app_state \<Rightarrow> string \<Rightarrow> py_error + figure" where
  "update_categorical_count_plot st categorical_col =
     (case get_column (df st) categorical_col of
        None \<Rightarrow> Inl KeyError
      | Some c \<Rightarrow>
          (case reset_index_counts (value_counts c) of
             Inl e \<Rightarrow> Inl e
           | Inr frame \<Rightarrow>
               (case set_columns frame [categorical_col, ''Count''] of
                  Inl e \<Rightarrow> Inl e
                | Inr counts \<Rightarrow>
                    (case px_bar counts categorical_col ''Count'' None
                            (''Count of Properties by '' @ categorical_col) of
                       Inl e \<Rightarrow> Inl e
                     | Inr fig \<Rightarrow> Inr (update_layout fig categorical_col ''Count'')))))"


definition update_sale_price_histogram :: "app_state \<Rightarrow> string \<Rightarrow> py_error + figure" where
  "update_sale_price_histogram st u =
     (case px_histogram (df st) ''SalePrice'' 50 ''Distribution of Sale Price'' ''box'' of
        Inl e \<Rightarrow> Inl e
      | Inr fig \<Rightarrow> Inr (update_layout fig ''Sale Price'' ''Count''))"

text \<open>
  The wiring of the callbacks: what each one is called with, given the values of the
  four dropdowns. The histogram callback is registered on the \<^verbatim>\<open>id\<close> property of
  its own graph, so it is called with that constant.
\<close>

record selection =
  categorical_dropdown :: string
  comparison_dropdown :: string
  x_axis_dropdown :: string
  y_axis_dropdown :: string




definition sale_price_histogram :: "app_state \<Rightarrow> selection \<Rightarrow> py_error + figure" where
  "sale_price_histogram st sel = update_sale_price_histogram st ''sale-price-histogram''"

text \<open>Reading a bar chart: its buckets, and their counts.\<close>

definition y_values :: "figure \<Rightarrow> cell list" where
  "y_values fig = (case fig_y fig of None \<Rightarrow> [] | Some (_, vs) \<Rightarrow> vs)"

definition buckets :: "figure \<Rightarrow> (cell \<times> cell) list" where
  "buckets fig = zip (snd (fig_x fig)) (y_values fig)"

fun int_of_cell :: "cell \<Rightarrow> int" where
  "int_of_cell (I i) = i"
| "int_of_cell _ = 0"

definition bucket_counts :: "figure \<Rightarrow> int list" where
  "bucket_counts fig = map int_of_cell (y_values fig)"

definition total_count :: "py_error + figure \<Rightarrow> int option" where
  "total_count r = (case r of Inl _ \<Rightarrow> None | Inr fig \<Rightarrow> Some (sum_list (bucket_counts fig)))"

text \<open>
  The specification's count of the rows of a frame in which two named columns both
  hold a value.
\<close>

definition cell_at :: "dataframe \<Rightarrow> string \<Rightarrow> nat \<Rightarrow> cell" where
  "cell_at d name i = (case get_column d name of None \<Rightarrow> NaN | Some c \<Rightarrow> cells c ! i)"

definition rows_with_both :: "dataframe \<Rightarrow> string \<Rightarrow> string \<Rightarrow> nat" where
  "rows_with_both d k1 k2 =
     length (filter (\<lambda>i. cell_at d k1 i \<noteq> NaN \<and> cell_at d k2 i \<noteq> NaN) [0..<nrows d])"

section \<open>Sample datasets\<close>

text \<open>
  Four rows of housing data: \<^verbatim>\<open>GarageType\<close> has one missing cell of four,
  \<^verbatim>\<open>Fence\<close> two and \<^verbatim>\<open>Alley\<close> three.
\<close>

definition neighborhood :: column where
  "neighborhood = \<lparr> cname = ''Neighborhood'', dtype = ObjectT,
      cells = [S ''NAmes'', S ''CollgCr'', S ''NAmes'', S ''NAmes''] \<rparr>"

definition garage_type :: column where
  "garage_type = \<lparr> cname = ''GarageType'', dtype = ObjectT,
      cells = [S ''Attchd'', NaN, S ''Detchd'', S ''Attchd''] \<rparr>"

definition alley :: column where
  "alley = \<lparr> cname = ''Alley'', dtype = ObjectT, cells = [NaN, NaN, S ''Grvl'', NaN] \<rparr>"

definition fence :: column where
  "fence = \<lparr> cname = ''Fence'', dtype = ObjectT,
      cells = [NaN, S ''MnPrv'', NaN, S ''GdWo''] \<rparr>"

definition ms_sub_class :: column where
  "ms_sub_class = \<lparr> cname = ''MSSubClass'', dtype = Int64T,
      cells = [I 20, I 60, I 20, I 20] \<rparr>"

definition lot_frontage :: column where
  "lot_frontage = \<lparr> cname = ''LotFrontage'', dtype = Float64T,
      cells = [F 65, NaN, F 80, F 60] \<rparr>"

definition gr_liv_area :: column where
  "gr_liv_area = \<lparr> cname = ''GrLivArea'', dtype = Int64T,
      cells = [I 1710, I 1262, I 1786, I 1717] \<rparr>"

definition sale_price :: column where
  "sale_price = \<lparr> cname = ''SalePrice'', dtype = Int64T,
      cells = [I 208500, I 181500, I 223500, I 140000] \<rparr>"

definition train :: dataframe where
  "train = [neighborhood, garage_type, alley, fence, ms_sub_class, lot_frontage,
            gr_liv_area, sale_price]"

text \<open>A hundred rows over three neighbourhoods, of ten, twenty and seventy rows.\<close>

definition hundred_neighborhood :: column where
  "hundred_neighborhood =
     \<lparr> cname = ''Neighborhood'', dtype = ObjectT,
       cells = replicate 10 (S ''Edwards'') @ replicate 20 (S ''OldTown'')
                 @ replicate 70 (S ''NAmes'') \<rparr>"

definition hundred :: dataframe where
  "hundred = [hundred_neighborhood]"

text \<open>
  Four rows with two text columns whose names are \<^verbatim>\<open>Count\<close> and \<^verbatim>\<open>count\<close>.
\<close>

definition count_upper :: column where
  "count_upper = \<lparr> cname = ''Count'', dtype = ObjectT,
      cells = [S ''one'', S ''two'', S ''one'', S ''one''] \<rparr>"

definition count_lower :: column where
  "count_lower = \<lparr> cname = ''count'', dtype = ObjectT,
      cells = [S ''few'', S ''few'', S ''many'', S ''few''] \<rparr>"

definition tallies :: dataframe where
  "tallies = [neighborhood, count_upper, count_lower, sale_price]"

text \<open>
  Two selection states: the dropdown defaults of the layout, and one that still names
  a column the cleaning step has dropped.
\<close>

definition stale :: selection where
  "stale = \<lparr> categorical_dropdown = ''Alley'', comparison_dropdown = ''Alley'',
             x_axis_dropdown = ''Alley'', y_axis_dropdown = ''Alley'' \<rparr>"

definition defaults :: selection where
  "defaults = \<lparr> categorical_dropdown = ''Neighborhood'', comparison_dropdown = ''SalePrice'',
                x_axis_dropdown = ''GrLivArea'', y_axis_dropdown = ''SalePrice'' \<rparr>"

section \<open>Retention\<close>

lemma count_list_filter_eq: "length (filter (\<lambda>v. v = a) xs) = count_list xs a"
  by (induction xs) auto

lemma isnull_mean_eq:
  "isnull_mean c =
     (if cells c = [] then Nan
      else Fin (of_nat (missing_count c) / of_nat (length (cells c))))"
  by (simp add: isnull_mean_def mean_bool_def missing_count_def length_filter_map
      comp_def isnull_def count_list_filter_eq)

lemma isnull_mean_missing_fraction:
  assumes "wf_df raw" and "c \<in> set raw"
  shows "isnull_mean c = missing_fraction raw c"
proof -
  from assms have "length (cells c) = nrows raw"
    by (simp add: wf_df_def)
  then have "isnull_mean c =
      (if nrows raw = 0 then Nan else Fin (of_nat (missing_count c) / of_nat (nrows raw)))"
    unfolding isnull_mean_eq by (cases "cells c") auto
  then show ?thesis
    by (simp add: missing_fraction_def)
qed

lemma float_ge_not_lt: "float_ge x q \<Longrightarrow> \<not> float_lt x q"
  by (cases x) auto

lemma wf_clean: "wf_df raw \<Longrightarrow> distinct (columns (clean raw))"
  by (simp add: wf_df_def columns_def clean_def distinct_map_filter)

text \<open>
  C1. A column of the loaded dataset is in the cleaned dataset exactly when its
  missing fraction, the count of its missing cells divided by the row count, is strictly
  below one half; a column whose missing fraction is at least one half is absent.
\<close>

theorem C1_retention:
  assumes "wf_df raw" and "c \<in> set raw"
  shows "(c \<in> set (df (startup raw)) \<longleftrightarrow> float_lt (missing_fraction raw c) (1 / 2))
       \<and> (float_ge (missing_fraction raw c) (1 / 2) \<longrightarrow> c \<notin> set (df (startup raw))
            \<and> cname c \<notin> set (columns (df (startup raw))))"
proof -
  have d: "df (startup raw) = clean raw"
    by (simp add: startup_def Let_def split: prod.splits)
  have m: "isnull_mean c = missing_fraction raw c"
    using assms by (rule isnull_mean_missing_fraction)
  have iff: "c \<in> set (clean raw) \<longleftrightarrow> float_lt (missing_fraction raw c) (1 / 2)"
    using assms(2) m by (simp add: clean_def)
  have absent: "cname c \<notin> set (columns (clean raw))" if "c \<notin> set (clean raw)"
  proof
    assume "cname c \<in> set (columns (clean raw))"
    then obtain c' where c': "c' \<in> set (clean raw)" "cname c' = cname c"
      by (auto simp: columns_def)
    then have "c' \<in> set raw" by (simp add: clean_def)
    with assms c' have "c' = c"
      by (auto simp: wf_df_def columns_def distinct_map inj_on_def)
    with c' that show False by simp
  qed
  show ?thesis
    using iff absent float_ge_not_lt by (auto simp: d)
qed

theorem C1_retention_witness:
  "wf_df train \<and> fence \<in> set train \<and> float_ge (missing_fraction train fence) (1 / 2)
   \<and> fence \<notin> set (df (startup train)) \<and> ''Fence'' \<notin> set (columns (df (startup train)))
   \<and> garage_type \<in> set train \<and> float_lt (missing_fraction train garage_type) (1 / 2)
   \<and> garage_type \<in> set (df (startup train))"
proof -
  have wf: "wf_df train" by code_simp
  have f: "fence \<in> set train" and g: "garage_type \<in> set train"
    by (simp_all add: train_def)
  have mf: "float_ge (missing_fraction train fence) (1 / 2)" by code_simp
  have mg: "float_lt (missing_fraction train garage_type) (1 / 2)" by code_simp
  have n: "cname fence = ''Fence''" by (simp add: fence_def)
  from C1_retention [OF wf f] mf
  have a: "fence \<notin> set (df (startup train)) \<and> cname fence \<notin> set (columns (df (startup train)))"
    by blast
  from C1_retention [OF wf g] mg
  have b: "garage_type \<in> set (df (startup train))"
    by blast
  show ?thesis
    using a b wf f g mf mg n by simp
qed

section \<open>Classification\<close>

lemma cname_inj:
  "distinct (columns d) \<Longrightarrow> c \<in> set d \<Longrightarrow> c' \<in> set d \<Longrightarrow> cname c = cname c' \<Longrightarrow> c = c'"
  by (auto simp: columns_def distinct_map inj_on_def)

lemma object_number_disjoint:
  assumes "distinct (columns d)"
  shows "set (columns (select_dtypes_object d)) \<inter> set (columns (select_dtypes_number d)) = {}"
proof -
  have False if "c \<in> set d" "c' \<in> set d" "cname c = cname c'" "dtype c = ObjectT"
      "dtype c' = Int64T \<or> dtype c' = Float64T" for c c'
    using cname_inj [OF assms that(1,2,3)] that(4,5) by auto
  then show ?thesis
    by (auto simp: columns_def select_dtypes_object_def select_dtypes_number_def)
qed

lemma distinct_select:
  assumes "distinct (columns d)"
  shows "distinct (columns (select_dtypes_object d))"
    and "distinct (columns (select_dtypes_number d))"
  using assms
  by (simp_all add: columns_def select_dtypes_object_def select_dtypes_number_def
      distinct_map_filter)

lemma select_subset:
  "set (columns (select_dtypes_object d)) \<subseteq> set (columns d)"
  "set (columns (select_dtypes_number d)) \<subseteq> set (columns d)"
  by (auto simp: columns_def select_dtypes_object_def select_dtypes_number_def)

lemma classify_props:
  assumes "distinct (columns d)" and "classify d = (cats, nums)"
  shows "distinct cats" "distinct nums" "set cats \<inter> set nums = {}"
    "set cats \<subseteq> set (columns d)" "set nums \<subseteq> set (columns d)"
    "''MSSubClass'' \<in> set (columns d) \<Longrightarrow> ''MSSubClass'' \<in> set cats \<and> ''MSSubClass'' \<notin> set nums"
    "''MSSubClass'' \<notin> set (columns d) \<Longrightarrow>
       cats = columns (select_dtypes_object d) \<and> nums = columns (select_dtypes_number d)"
  using assms(2) object_number_disjoint [OF assms(1)] distinct_select [OF assms(1)]
    select_subset [of d]
  by (auto simp: classify_def Let_def split: if_splits)

lemma startup_fields:
  "df (startup raw) = clean raw"
  "categorical_cols (startup raw) = fst (classify (clean raw))"
  "numerical_cols (startup raw) = snd (classify (clean raw))"
  "numerical_features_for_comparison (startup raw) =
     filter (\<lambda>col. col \<noteq> ''SalePrice'') (snd (classify (clean raw)))"
  "all_features (startup raw) =
     fst (classify (clean raw)) @ filter (\<lambda>col. col \<noteq> ''SalePrice'') (snd (classify (clean raw)))"
  by (simp_all add: startup_def Let_def split: prod.splits)

text \<open>
  C2. When the cleaned dataset has a column \<^verbatim>\<open>MSSubClass\<close>, of whatever storage
  type, the name is in the categorical list and not in the numerical list. When it has
  none, the two lists are the text columns and the numeric columns, as selected.
\<close>

theorem C2_mssubclass:
  assumes "wf_df raw"
  shows "(''MSSubClass'' \<in> set (columns (df (startup raw))) \<longrightarrow>
            ''MSSubClass'' \<in> set (categorical_cols (startup raw))
          \<and> ''MSSubClass'' \<notin> set (numerical_cols (startup raw)))
       \<and> (''MSSubClass'' \<notin> set (columns (df (startup raw))) \<longrightarrow>
            categorical_cols (startup raw) = columns (select_dtypes_object (df (startup raw)))
          \<and> numerical_cols (startup raw) = columns (select_dtypes_number (df (startup raw))))"
proof -
  obtain cats nums where cl: "classify (clean raw) = (cats, nums)"
    by (cases "classify (clean raw)")
  note p = classify_props [OF wf_clean [OF assms] cl]
  show ?thesis
    using p(6,7) by (simp add: startup_fields cl)
qed

theorem C2_mssubclass_witness:
  "wf_df train \<and> ''MSSubClass'' \<in> set (columns (df (startup train)))
   \<and> ''MSSubClass'' \<in> set (categorical_cols (startup train))
   \<and> ''MSSubClass'' \<notin> set (numerical_cols (startup train))
   \<and> wf_df hundred \<and> ''MSSubClass'' \<notin> set (columns (df (startup hundred)))
   \<and> categorical_cols (startup hundred) = [''Neighborhood'']
   \<and> numerical_cols (startup hundred) = []"
proof -
  have wf: "wf_df train" and wfh: "wf_df hundred" by code_simp+
  have m: "''MSSubClass'' \<in> set (columns (df (startup train)))" by code_simp
  have h: "''MSSubClass'' \<notin> set (columns (df (startup hundred)))" by code_simp
  have o: "columns (select_dtypes_object (df (startup hundred))) = [''Neighborhood'']"
    by code_simp
  have n: "columns (select_dtypes_number (df (startup hundred))) = []"
    by code_simp
  show ?thesis
    using C2_mssubclass [OF wf] C2_mssubclass [OF wfh] wf wfh m h o n by simp
qed

section \<open>Feature lists\<close>

text \<open>
  C3. The numerical-for-comparison list never contains \<^verbatim>\<open>SalePrice\<close>; the
  all-features list is the categorical list followed by the numerical-for-comparison
  list; the two lists have no name in common, so the concatenation has no duplicate.
\<close>

theorem C3_feature_lists:
  assumes "wf_df raw"
  shows "''SalePrice'' \<notin> set (numerical_features_for_comparison (startup raw))
       \<and> all_features (startup raw) =
           categorical_cols (startup raw) @ numerical_features_for_comparison (startup raw)
       \<and> set (categorical_cols (startup raw))
           \<inter> set (numerical_features_for_comparison (startup raw)) = {}
       \<and> distinct (all_features (startup raw))"
proof -
  obtain cats nums where cl: "classify (clean raw) = (cats, nums)"
    by (cases "classify (clean raw)")
  note p = classify_props [OF wf_clean [OF assms] cl]
  have "set cats \<inter> set (filter (\<lambda>col. col \<noteq> ''SalePrice'') nums) = {}"
    using p(3) by auto
  then show ?thesis
    using p(1,2) by (simp add: startup_fields cl)
qed

theorem C3_feature_lists_witness:
  "wf_df train
   \<and> numerical_features_for_comparison (startup train) = [''LotFrontage'', ''GrLivArea'']
   \<and> ''SalePrice'' \<notin> set (numerical_features_for_comparison (startup train))
   \<and> all_features (startup train) =
       [''Neighborhood'', ''GarageType'', ''MSSubClass'', ''LotFrontage'', ''GrLivArea'']
   \<and> distinct (all_features (startup train))"
proof -
  have wf: "wf_df train" by code_simp
  have n: "numerical_features_for_comparison (startup train) = [''LotFrontage'', ''GrLivArea'']"
    by code_simp
  have c: "categorical_cols (startup train) = [''Neighborhood'', ''GarageType'', ''MSSubClass'']"
    by code_simp
  show ?thesis
    using C3_feature_lists [OF wf] wf n c by simp
qed

section \<open>Column lookups, and the callbacks on an absent column\<close>


lemma filter_cname:
  "distinct (columns d) \<Longrightarrow> c \<in> set d \<Longrightarrow> filter (\<lambda>c'. cname c' = cname c) d = [c]"
proof (induction d)
  case Nil
  then show ?case by simp
next
  case (Cons a d)
  show ?case
  proof (cases "a = c")
    case True
    from Cons.prems True have "cname c \<notin> cname ` set d"
      by (simp add: columns_def)
    then have "filter (\<lambda>c'. cname c' = cname c) d = []"
      unfolding filter_empty_conv by (metis image_eqI)
    with True show ?thesis by simp
  next
    case False
    with Cons.prems have "c \<in> set d" "cname a \<noteq> cname c" "distinct (columns d)"
      by (auto simp: columns_def)
    with Cons.IH show ?thesis by simp
  qed
qed

lemma get_column_present:
  "distinct (columns d) \<Longrightarrow> c \<in> set d \<Longrightarrow> get_column d (cname c) = Some c"
  using filter_cname [of d c]
  by (induction d) (auto simp: get_column_def columns_def split: if_splits)


lemma px_column_present:
  "distinct (columns d) \<Longrightarrow> c \<in> set d \<Longrightarrow> px_column d (cname c) = Inr (cname c, cells c)"
  by (simp add: px_column_def filter_cname)



lemma categorical_cols_present:
  assumes "wf_df raw"
  shows "set (categorical_cols (startup raw)) \<subseteq> set (columns (df (startup raw)))"
proof -
  obtain cats nums where cl: "classify (clean raw) = (cats, nums)"
    by (cases "classify (clean raw)")
  from classify_props(4) [OF wf_clean [OF assms] cl] show ?thesis
    by (simp add: startup_fields cl)
qed

text \<open>
  What the histogram callback hands to the renderer: the cells of the
  \<^verbatim>\<open>SalePrice\<close> column as they are, the bin setting 50 and a box plot as marginal.
  The code computes no bin.
\<close>

lemma histogram_result:
  assumes "distinct (columns (df st))" and "c \<in> set (df st)" and "cname c = ''SalePrice''"
  shows "update_sale_price_histogram st u =
     Inr \<lparr> fig_kind = Histogram, fig_x = (''SalePrice'', cells c), fig_y = None,
           fig_color = None, fig_nbins = Some 50, fig_marginal = Some ''box'',
           fig_title = ''Distribution of Sale Price'',
           xaxis_title = ''Sale Price'', yaxis_title = ''Count'' \<rparr>"
  using px_column_present [OF assms(1,2)] assms(3)
  by (simp add: update_sale_price_histogram_def px_histogram_def update_layout_def)

text \<open>
  C8. The histogram is the same for any two selection states, and for any two values
  the callback is called with: it is determined by the \<^verbatim>\<open>SalePrice\<close> column of
  the dataset alone.
\<close>

theorem C8_histogram_fixed:
  "sale_price_histogram st sel = sale_price_histogram st sel'
   \<and> update_sale_price_histogram st u = update_sale_price_histogram st u'
   \<and> (filter (\<lambda>c. cname c = ''SalePrice'') (df st) = filter (\<lambda>c. cname c = ''SalePrice'') (df st')
        \<longrightarrow> sale_price_histogram st sel = sale_price_histogram st' sel')"
  by (simp add: sale_price_histogram_def update_sale_price_histogram_def px_histogram_def
      px_column_def)

theorem C8_histogram_fixed_witness:
  "filter (\<lambda>c. cname c = ''SalePrice'') (df (startup train))
     = filter (\<lambda>c. cname c = ''SalePrice'') (df (startup [sale_price, neighborhood]))
   \<and> sale_price_histogram (startup train) stale
     = sale_price_histogram (startup [sale_price, neighborhood]) defaults"
proof -
  have f: "filter (\<lambda>c. cname c = ''SalePrice'') (df (startup train))
     = filter (\<lambda>c. cname c = ''SalePrice'') (df (startup [sale_price, neighborhood]))"
    by code_simp
  from C8_histogram_fixed [of "startup train" stale defaults
        "''sale-price-histogram''" "''sale-price-histogram''"
        "startup [sale_price, neighborhood]"] f
  have "sale_price_histogram (startup train) stale
     = sale_price_histogram (startup [sale_price, neighborhood]) defaults"
    by blast
  with f show ?thesis by blast
qed




section \<open>The comparison plot and the count plot on columns of the dataset\<close>

lemma wf_df_clean: "wf_df raw \<Longrightarrow> wf_df (clean raw)"
proof -
  assume wf: "wf_df raw"
  have len: "length (cells c) = nrows raw" if "c \<in> set (clean raw)" for c
    using wf that by (simp add: wf_df_def clean_def)
  have "nrows (clean raw) = nrows raw" if "clean raw \<noteq> []"
  proof -
    from that obtain c cs where e: "clean raw = c # cs" by (cases "clean raw") auto
    then have "c \<in> set (clean raw)" by simp
    from len [OF this] e show ?thesis by (simp add: nrows_def)
  qed
  with len have "\<forall>c \<in> set (clean raw). length (cells c) = nrows (clean raw)"
    by (cases "clean raw = []") auto
  with wf_clean [OF wf] show ?thesis by (simp add: wf_df_def)
qed

lemma sum_count_distinct:
  assumes "distinct ys" and "set ys = set xs"
  shows "sum_list (map (count_list xs) ys) = length xs"
proof -
  have "sum_list (map (count_list xs) ys) = sum (count_list xs) (set ys)"
    using assms(1) by (rule sum_list_distinct_conv_sum_set)
  also have "\<dots> = length xs"
    unfolding assms(2) by (rule sum_count_set) simp_all
  finally show ?thesis .
qed

lemma group_labels_distinct: "distinct (group_labels c1 c2)"
  and group_labels_set: "set (group_labels c1 c2) = set (group_rows c1 c2)"
  by (simp_all add: group_labels_def)

lemma compare_bar:
  assumes "distinct (columns (df st))" and "c1 \<in> set (df st)" and "c2 \<in> set (df st)"
    and "cname c2 \<in> set (categorical_cols st)"
    and "cname c1 \<noteq> cname c2" and "cname c1 \<noteq> ''Count''" and "cname c2 \<noteq> ''Count''"
  shows "update_comparison_plot st (cname c1) (cname c2) =
     Inr \<lparr> fig_kind = BarChart,
           fig_x = (cname c1, map fst (group_labels c1 c2)),
           fig_y = Some (''Count'',
             map (\<lambda>k. I (int k)) (map (count_list (group_rows c1 c2)) (group_labels c1 c2))),
           fig_color = Some (cname c2, map snd (group_labels c1 c2)),
           fig_nbins = None, fig_marginal = None,
           fig_title = ''Count of '' @ cname c1 @ '' by '' @ cname c2,
           xaxis_title = cname c1, yaxis_title = cname c2 \<rparr>"
  using assms(4-7)
  by (simp add: update_comparison_plot_def groupby_size_def Let_def
      get_column_present [OF assms(1,2)] get_column_present [OF assms(1,3)]
      reset_index_def px_bar_def px_xy_def px_column_def count_column_def update_layout_def)

lemma compare_box:
  assumes "distinct (columns (df st))" and "c1 \<in> set (df st)" and "c2 \<in> set (df st)"
    and "cname c2 \<notin> set (categorical_cols st)"
  shows "update_comparison_plot st (cname c1) (cname c2) =
     Inr \<lparr> fig_kind = BoxPlot,
           fig_x = (cname c1, cells c1), fig_y = Some (cname c2, cells c2),
           fig_color = None, fig_nbins = None, fig_marginal = None,
           fig_title = cname c2 @ '' Distribution by '' @ cname c1,
           xaxis_title = cname c1, yaxis_title = cname c2 \<rparr>"
  using assms(4)
  by (simp add: update_comparison_plot_def px_box_def px_xy_def
      px_column_present [OF assms(1,2)] px_column_present [OF assms(1,3)] update_layout_def)

lemma compare_same_column:
  assumes "distinct (columns (df st))" and "c \<in> set (df st)"
    and "cname c \<in> set (categorical_cols st)"
  shows "update_comparison_plot st (cname c) (cname c) = Inl ValueError"
  using assms(3)
  by (simp add: update_comparison_plot_def groupby_size_def Let_def
      get_column_present [OF assms(1,2)] reset_index_def)

lemma zip_nth:
  "length xs = n \<Longrightarrow> length ys = n \<Longrightarrow> zip xs ys = map (\<lambda>i. (xs ! i, ys ! i)) [0..<n]"
  by (simp add: list_eq_iff_nth_eq)

lemma rows_with_both_eq:
  assumes "wf_df d" and "c1 \<in> set d" and "c2 \<in> set d"
  shows "rows_with_both d (cname c1) (cname c2) = length (group_rows c1 c2)"
proof -
  from assms have dist: "distinct (columns d)"
    and l1: "length (cells c1) = nrows d" and l2: "length (cells c2) = nrows d"
    by (simp_all add: wf_df_def)
  have at: "cell_at d (cname c1) i = cells c1 ! i" "cell_at d (cname c2) i = cells c2 ! i" for i
    by (simp_all add: cell_at_def get_column_present [OF dist assms(2)]
        get_column_present [OF dist assms(3)])
  show ?thesis
    by (simp add: rows_with_both_def group_rows_def zip_nth [OF l1 l2] at
        length_filter_map comp_def notna_def)
qed

lemma sum_int_cells:
  "sum_list (map int_of_cell (map (\<lambda>k. I (int k)) ks)) = int (sum_list ks)"
  by (induction ks) auto

lemma total_count_compare:
  assumes "distinct (columns (df st))" and "c1 \<in> set (df st)" and "c2 \<in> set (df st)"
    and "cname c2 \<in> set (categorical_cols st)"
    and "cname c1 \<noteq> cname c2" and "cname c1 \<noteq> ''Count''" and "cname c2 \<noteq> ''Count''"
  shows "total_count (update_comparison_plot st (cname c1) (cname c2)) =
     Some (int (length (group_rows c1 c2)))"
proof -
  have "sum_list (map int_of_cell
      (map (\<lambda>k. I (int k)) (map (count_list (group_rows c1 c2)) (group_labels c1 c2))))
      = int (sum_list (map (count_list (group_rows c1 c2)) (group_labels c1 c2)))"
    by (rule sum_int_cells)
  also have "\<dots> = int (length (group_rows c1 c2))"
    by (simp add: sum_count_distinct [OF group_labels_distinct group_labels_set])
  finally show ?thesis
    by (simp add: compare_bar [OF assms] total_count_def bucket_counts_def y_values_def)
qed

lemma unique_set: "set (unique vs) = set vs" and unique_distinct: "distinct (unique vs)"
  by (simp_all add: unique_def)

lemma count_list_filter: "P v \<Longrightarrow> count_list (filter P xs) v = count_list xs v"
  by (induction xs) auto

lemma count_rows_set:
  "set (count_rows c) = (\<lambda>v. (v, count_list (cells c) v)) ` (set (cells c) - {NaN})"
  by (auto simp: count_rows_def unique_set notna_def)

lemma count_rows_distinct: "distinct (map fst (count_rows c))"
proof -
  let ?L = "map (\<lambda>v. (v, count_list (cells c) v)) (unique (filter notna (cells c)))"
  have "distinct (map fst ?L)"
    by (simp add: comp_def unique_distinct)
  then have "distinct ?L \<and> inj_on fst (set ?L)"
    by (simp only: distinct_map)
  then have "distinct (count_rows c) \<and> inj_on fst (set (count_rows c))"
    by (simp add: count_rows_def)
  then show ?thesis
    by (simp only: distinct_map)
qed


lemma count_rows_sum:
  "sum_list (map snd (count_rows c)) = length (filter notna (cells c))"
proof -
  let ?vals = "filter notna (cells c)"
  let ?L = "map (\<lambda>v. (v, count_list (cells c) v)) (unique ?vals)"
  have dL: "distinct ?L"
    by (simp add: distinct_map unique_distinct inj_on_def)
  have "sum_list (map snd (count_rows c)) = sum snd (set (count_rows c))"
    using dL by (intro sum_list_distinct_conv_sum_set) (simp add: count_rows_def)
  also have "\<dots> = sum snd (set ?L)"
    by (simp add: count_rows_def)
  also have "\<dots> = sum_list (map snd ?L)"
    using dL by (rule sum_list_distinct_conv_sum_set [symmetric])
  also have "\<dots> = sum_list (map (count_list (cells c)) (unique ?vals))"
    by (simp add: comp_def)
  also have "\<dots> = sum_list (map (count_list ?vals) (unique ?vals))"
    by (rule arg_cong [where f = sum_list], rule map_cong)
      (simp_all add: unique_set count_list_filter)
  also have "\<dots> = length ?vals"
    by (rule sum_count_distinct) (simp_all add: unique_distinct unique_set)
  finally show ?thesis .
qed

lemma count_plot_result:
  assumes "distinct (columns (df st))" and "c \<in> set (df st)"
    and "cname c \<noteq> ''count''" and "cname c \<noteq> ''Count''"
  shows "update_categorical_count_plot st (cname c) =
     Inr \<lparr> fig_kind = BarChart,
           fig_x = (cname c, map fst (count_rows c)),
           fig_y = Some (''Count'', map (\<lambda>k. I (int k)) (map snd (count_rows c))),
           fig_color = None, fig_nbins = None, fig_marginal = None,
           fig_title = ''Count of Properties by '' @ cname c,
           xaxis_title = cname c, yaxis_title = ''Count'' \<rparr>"
  using assms(3,4)
  by (simp add: update_categorical_count_plot_def get_column_present [OF assms(1,2)]
      value_counts_def reset_index_counts_def set_columns_def
      px_bar_def px_xy_def px_column_def count_column_def update_layout_def)

lemma count_plot_collision:
  assumes "distinct (columns (df st))" and "c \<in> set (df st)"
    and "cname c = ''count'' \<or> cname c = ''Count''"
  shows "update_categorical_count_plot st (cname c) = Inl ValueError"
  using assms(3)
  by (auto simp: update_categorical_count_plot_def get_column_present [OF assms(1,2)]
      value_counts_def reset_index_counts_def set_columns_def
      px_bar_def px_xy_def px_column_def count_column_def)

lemma startup_wf:
  assumes "wf_df raw"
  shows "wf_df (df (startup raw))" and "distinct (columns (df (startup raw)))"
  using wf_df_clean [OF assms] wf_clean [OF assms] by (simp_all add: startup_fields)

lemma present_column:
  "n \<in> set (columns d) \<Longrightarrow> \<exists>c \<in> set d. cname c = n"
  by (auto simp: columns_def)

section \<open>The comparison plot\<close>

text \<open>
  C4. On two different columns of the dataset, neither named \<^verbatim>\<open>Count\<close>, the
  callback dispatches as the claim says (\<open>compare_bar\<close>, \<open>compare_box\<close>). The
  comparison dropdown offers every categorical column, the one chosen in the first
  dropdown included; with both dropdowns on \<^verbatim>\<open>Neighborhood\<close> the grouped frame would
  need two columns of that name, \<^verbatim>\<open>reset_index\<close> raises, and no chart is returned.
\<close>

theorem C4_same_column:
  "''Neighborhood'' \<in> set (categorical_cols (startup train))
   \<and> ''Neighborhood'' \<in> set (all_features (startup train) @ [''SalePrice''])
   \<and> update_comparison_plot (startup train) ''Neighborhood'' ''Neighborhood'' = Inl ValueError"
  by code_simp

text \<open>
  C5 as stated fails: \<^verbatim>\<open>GarageType\<close> has a missing cell in one of the four rows, the
  row is in no group, and the counts add up to three.
\<close>

theorem C5_counterexample:
  "wf_df train
   \<and> ''Neighborhood'' \<in> set (categorical_cols (startup train))
   \<and> ''GarageType'' \<in> set (categorical_cols (startup train))
   \<and> total_count (update_comparison_plot (startup train) ''Neighborhood'' ''GarageType'') = Some 3
   \<and> nrows (df (startup train)) = 4"
  by code_simp

text \<open>
  C5, as the code has it. For two different categorical columns, neither named
  \<^verbatim>\<open>Count\<close>, the grouped counts add up to the number of rows in which both columns
  hold a value; that is the row count when neither column has a missing cell.
\<close>

theorem C5_grouped_counts:
  assumes "wf_df raw"
    and "cat1 \<in> set (categorical_cols (startup raw))"
    and "cat2 \<in> set (categorical_cols (startup raw))"
    and "cat1 \<noteq> cat2" and "cat1 \<noteq> ''Count''" and "cat2 \<noteq> ''Count''"
  shows "total_count (update_comparison_plot (startup raw) cat1 cat2) =
           Some (int (rows_with_both (df (startup raw)) cat1 cat2))
       \<and> ((\<forall>i < nrows (df (startup raw)).
              cell_at (df (startup raw)) cat1 i \<noteq> NaN \<and> cell_at (df (startup raw)) cat2 i \<noteq> NaN)
            \<longrightarrow> total_count (update_comparison_plot (startup raw) cat1 cat2) =
                  Some (int (nrows (df (startup raw)))))"
proof -
  let ?st = "startup raw"
  note wf = startup_wf [OF assms(1)]
  from assms(2,3) categorical_cols_present [OF assms(1)]
  obtain c1 c2 where c: "c1 \<in> set (df ?st)" "cname c1 = cat1" "c2 \<in> set (df ?st)" "cname c2 = cat2"
    by (meson present_column subsetD)
  have t: "total_count (update_comparison_plot ?st cat1 cat2) =
      Some (int (length (group_rows c1 c2)))"
    using total_count_compare [OF wf(2) c(1,3)] assms(3-6) c(2,4) by simp
  have r: "rows_with_both (df ?st) cat1 cat2 = length (group_rows c1 c2)"
    using rows_with_both_eq [OF wf(1) c(1,3)] c(2,4) by simp
  have "rows_with_both (df ?st) cat1 cat2 = nrows (df ?st)"
    if "\<forall>i < nrows (df ?st). cell_at (df ?st) cat1 i \<noteq> NaN \<and> cell_at (df ?st) cat2 i \<noteq> NaN"
    using that by (simp add: rows_with_both_def)
  with t r show ?thesis by simp
qed

theorem C5_grouped_counts_witness:
  "wf_df train
   \<and> ''Neighborhood'' \<in> set (categorical_cols (startup train))
   \<and> ''GarageType'' \<in> set (categorical_cols (startup train))
   \<and> ''MSSubClass'' \<in> set (categorical_cols (startup train))
   \<and> rows_with_both (df (startup train)) ''Neighborhood'' ''GarageType'' = 3
   \<and> total_count (update_comparison_plot (startup train) ''Neighborhood'' ''GarageType'') = Some 3
   \<and> nrows (df (startup train)) = 4
   \<and> total_count (update_comparison_plot (startup train) ''Neighborhood'' ''MSSubClass'') = Some 4"
proof -
  have wf: "wf_df train" by code_simp
  have n: "''Neighborhood'' \<in> set (categorical_cols (startup train))"
    and g: "''GarageType'' \<in> set (categorical_cols (startup train))"
    and m: "''MSSubClass'' \<in> set (categorical_cols (startup train))"
    by code_simp+
  have r: "rows_with_both (df (startup train)) ''Neighborhood'' ''GarageType'' = 3"
    by code_simp
  have k: "nrows (df (startup train)) = 4" by code_simp
  have full: "\<forall>i < nrows (df (startup train)).
      cell_at (df (startup train)) ''Neighborhood'' i \<noteq> NaN
      \<and> cell_at (df (startup train)) ''MSSubClass'' i \<noteq> NaN"
    unfolding k by code_simp
  have a: "total_count (update_comparison_plot (startup train) ''Neighborhood'' ''GarageType'')
      = Some 3"
    using C5_grouped_counts [OF wf n g] r by simp
  have b: "total_count (update_comparison_plot (startup train) ''Neighborhood'' ''MSSubClass'')
      = Some 4"
  proof -
    have ne: "''Neighborhood'' \<noteq> ''MSSubClass''" "''Neighborhood'' \<noteq> ''Count''"
      "''MSSubClass'' \<noteq> ''Count''"
      by simp_all
    from C5_grouped_counts [OF wf n m ne] full
    have "total_count (update_comparison_plot (startup train) ''Neighborhood'' ''MSSubClass'')
        = Some (int (nrows (df (startup train))))"
      by blast
    then show ?thesis by (simp add: k)
  qed
  from wf n g m r k a b show ?thesis by blast
qed

section \<open>The count plot\<close>

lemma buckets_count_plot:
  assumes "distinct (columns (df st))" and "c \<in> set (df st)"
    and "update_categorical_count_plot st (cname c) = Inr fig"
  shows "buckets fig = map (\<lambda>(v, k). (v, I (int k))) (count_rows c)"
    and "bucket_counts fig = map (\<lambda>p. int (snd p)) (count_rows c)"
    and "fig_kind fig = BarChart"
    and "cname c \<noteq> ''count''" and "cname c \<noteq> ''Count''"
proof -
  from count_plot_collision [OF assms(1,2)] assms(3)
  show ne: "cname c \<noteq> ''count''" "cname c \<noteq> ''Count''" by auto
  from assms(3) [unfolded count_plot_result [OF assms(1,2) ne]]
  show "buckets fig = map (\<lambda>(v, k). (v, I (int k))) (count_rows c)"
    and "bucket_counts fig = map (\<lambda>p. int (snd p)) (count_rows c)"
    and "fig_kind fig = BarChart"
    by (auto simp: buckets_def bucket_counts_def y_values_def zip_map_map zip_same_conv_map
        case_prod_unfold comp_def)
qed

lemma sum_int_snd: "sum_list (map (\<lambda>p. int (snd p)) ps) = int (sum_list (map snd ps))"
  by (induction ps) auto

lemma three_values:
  assumes "set xs = {va, vb, vc}" and "count_list xs va = 10" and "count_list xs vb = 20"
    and "count_list xs vc = 70"
  shows "length xs = 100" and "card (set xs) = 3"
proof -
  from assms(2-4) have ne: "va \<noteq> vb" "va \<noteq> vc" "vb \<noteq> vc" by auto
  have "length xs = sum (count_list xs) (set xs)"
    by (rule sum_count_set [symmetric]) simp_all
  also have "\<dots> = 100"
    unfolding assms(1) using ne assms(2-4) by simp
  finally show "length xs = 100" .
  show "card (set xs) = 3"
    unfolding assms(1) using ne by simp
qed

text \<open>
  What the count plot returns on a column of the cleaned dataset whose name is neither
  \<^verbatim>\<open>count\<close> nor \<^verbatim>\<open>Count\<close>: a bar chart with one bucket per distinct value of the
  column, a missing cell not being a value, each bucket with the number of rows that
  hold its value; three buckets with the counts 10, 20 and 70, adding up to 100, when
  the column holds three values in 10, 20 and 70 rows.
\<close>

lemma count_by_buckets:
  assumes "wf_df raw" and "c \<in> set (df (startup raw))"
    and "cname c \<noteq> ''count''" and "cname c \<noteq> ''Count''"
  shows "\<exists>fig. update_categorical_count_plot (startup raw) (cname c) = Inr fig
       \<and> fig_kind fig = BarChart
       \<and> distinct (map fst (buckets fig))
       \<and> set (map fst (buckets fig)) = set (cells c) - {NaN}
       \<and> (\<forall>(v, k) \<in> set (buckets fig). k = I (int (count_list (cells c) v)))
       \<and> (\<forall>va vb vc. set (cells c) = {va, vb, vc} \<and> NaN \<notin> {va, vb, vc}
              \<and> count_list (cells c) va = 10 \<and> count_list (cells c) vb = 20
              \<and> count_list (cells c) vc = 70
            \<longrightarrow> set (buckets fig) = {(va, I 10), (vb, I 20), (vc, I 70)}
              \<and> length (buckets fig) = 3 \<and> sum_list (bucket_counts fig) = 100)"
proof -
  let ?st = "startup raw"
  note d = startup_wf(2) [OF assms(1)]
  obtain fig where fig: "update_categorical_count_plot ?st (cname c) = Inr fig"
    using count_plot_result [OF d assms(2,3,4)] by simp
  note b = buckets_count_plot [OF d assms(2) fig]
  have keys: "map fst (buckets fig) = map fst (count_rows c)"
    by (simp add: b(1) comp_def case_prod_unfold)
  have 1: "distinct (map fst (buckets fig))"
    unfolding keys by (rule count_rows_distinct)
  have 2: "set (map fst (buckets fig)) = set (cells c) - {NaN}"
    unfolding keys by (simp add: count_rows_set image_image)
  have 3: "\<forall>(v, k) \<in> set (buckets fig). k = I (int (count_list (cells c) v))"
    by (auto simp: b(1) count_rows_set)
  have 4: "set (buckets fig) = {(va, I 10), (vb, I 20), (vc, I 70)}
      \<and> length (buckets fig) = 3 \<and> sum_list (bucket_counts fig) = 100"
    if h: "set (cells c) = {va, vb, vc}" "NaN \<notin> {va, vb, vc}"
      "count_list (cells c) va = 10" "count_list (cells c) vb = 20"
      "count_list (cells c) vc = 70" for va vb vc
  proof -
    note t = three_values [OF h(1,3,4,5)]
    from h(1,2) have nn: "set (cells c) - {NaN} = set (cells c)" by auto
    have "set (buckets fig) = (\<lambda>v. (v, I (int (count_list (cells c) v)))) ` set (cells c)"
      by (simp add: b(1) count_rows_set image_image nn)
    then have s: "set (buckets fig) = {(va, I 10), (vb, I 20), (vc, I 70)}"
      by (simp add: h)
    have "length (buckets fig) = length (map fst (buckets fig))" by simp
    also have "\<dots> = card (set (map fst (buckets fig)))"
      using 1 by (rule distinct_card [symmetric])
    also have "\<dots> = 3"
      unfolding 2 nn by (rule t(2))
    finally have l: "length (buckets fig) = 3" .
    from h(1,2) have "filter notna (cells c) = cells c"
      by (auto simp: notna_def filter_id_conv)
    then have "sum_list (map snd (count_rows c)) = 100"
      using count_rows_sum [of c] t(1) by simp
    then have "sum_list (bucket_counts fig) = 100"
      unfolding b(2) by (simp add: sum_int_snd)
    with s l show ?thesis by simp
  qed
  have 5: "\<forall>va vb vc. set (cells c) = {va, vb, vc} \<and> NaN \<notin> {va, vb, vc}
              \<and> count_list (cells c) va = 10 \<and> count_list (cells c) vb = 20
              \<and> count_list (cells c) vc = 70
            \<longrightarrow> set (buckets fig) = {(va, I 10), (vb, I 20), (vc, I 70)}
              \<and> length (buckets fig) = 3 \<and> sum_list (bucket_counts fig) = 100"
    using 4 by (intro allI impI) (elim conjE)
  show ?thesis
    by (rule exI [of _ fig]) (intro conjI fig b(3) 1 2 3 5)
qed

lemma count_by_hundred:
  "map_sum id (\<lambda>fig. (buckets fig, sum_list (bucket_counts fig)))
       (update_categorical_count_plot (startup hundred) ''Neighborhood'')
     = Inr ([(S ''NAmes'', I 70), (S ''OldTown'', I 20), (S ''Edwards'', I 10)], 100)"
  by code_simp

text \<open>
  C6. The claim holds on every column named otherwise (\<open>count_by_buckets\<close>,
  \<open>count_by_hundred\<close>), but not for every categorical column: on a text column
  named \<^verbatim>\<open>Count\<close> the relabelled frame has two columns of that name and the bar
  chart cannot be built; on one named \<^verbatim>\<open>count\<close> the name of the counted series is
  taken and \<^verbatim>\<open>reset_index\<close> raises. Both are categorical columns, offered by the
  dropdown, and the callback returns no bucket for them.
\<close>

theorem C6_count_label:
  "''Count'' \<in> set (categorical_cols (startup tallies))
   \<and> ''count'' \<in> set (categorical_cols (startup tallies))
   \<and> update_categorical_count_plot (startup tallies) ''Count'' = Inl ValueError
   \<and> update_categorical_count_plot (startup tallies) ''count'' = Inl ValueError"
  by code_simp



end
